theory Spec2Isabelle
  imports Complex_Main
begin

section \<open>Focus borders of the accessibility module (focusBorder.ts)\<close>

text \<open>
  The module extends the SVG element wrapper with \<open>addFocusBorder\<close> and
  \<open>removeFocusBorder\<close>, and the chart with \<open>setFocusToElement\<close>. All three mutate
  objects that are shared by reference (the wrapper's \<open>focusBorder\<close> slot, the chart's
  \<open>focusElement\<close> slot, the listener registry of a DOM node), so the model is an explicit
  store: wrappers, DOM nodes and overlay rectangles live in maps indexed by references, and
  every operation takes the store and returns the updated one.

  Numbers are JavaScript doubles in the source. Here the coordinates are real numbers: the
  arithmetic is exact, and \<open>NaN\<close> and the infinities are not values of the number
  type. What \<open>parseInt\<close> returns has a type of its own, with \<open>NaN\<close>, the infinities
  and the rounding of a large integer to a double.
\<close>

subsection \<open>JavaScript values\<close>

type_synonym ref = nat

text \<open>A string is the list of its UTF-16 code units; \<open>js\<close> embeds an ASCII literal.\<close>

type_synonym jsstring = "nat list"

definition js :: "string \<Rightarrow> jsstring" where
  "js s = map of_char s"

datatype jsval = Undefined | JNum real | JStr jsstring

text \<open>Truthiness, as \<open>&&\<close>, \<open>||\<close> and \<open>if\<close> test it.\<close>

fun truthy :: "jsval \<Rightarrow> bool" where
  "truthy Undefined = False"
| "truthy (JNum v) = (v \<noteq> 0)"
| "truthy (JStr s) = (s \<noteq> [])"

text \<open>What \<open>parseInt\<close> returns: \<open>NaN\<close>, an integer that is a double, or an infinity.\<close>

datatype jsint = NaN | Finite int | Infinity | NegInfinity

text \<open>
  The white space \<open>parseInt\<close> skips: the white space and line terminator code points of
  the language (tab, line feed, vertical tab, form feed, carriage return, space, no-break
  space, U+1680, U+2000 to U+200A, U+2028, U+2029, U+202F, U+205F, U+3000, U+FEFF).
\<close>

definition isWhiteSpace :: "nat \<Rightarrow> bool" where
  "isWhiteSpace c =
     (c \<in> {9, 10, 11, 12, 13, 32, 160, 5760, 8232, 8233, 8239, 8287, 12288, 65279} \<or>
      (8192 \<le> c \<and> c \<le> 8202))"

definition isDigit :: "nat \<Rightarrow> bool" where
  "isDigit c = (48 \<le> c \<and> c \<le> 57)"

definition digitsValue :: "jsstring \<Rightarrow> nat" where
  "digitsValue ds = foldl (\<lambda>a c. 10 * a + (c - 48)) 0 ds"

text \<open>
  The integer read is a Number: below \<open>2 ^ 53\<close> it is exact, above it is rounded to the
  nearest double (53 significant bits, ties to even), and to infinity from \<open>2 ^ 1024\<close> on.
  The language leaves the digits after the twentieth significant one to the engine, and
  engines round the number as written.
\<close>

fun bitLength :: "nat \<Rightarrow> nat" where
  "bitLength n = (if n = 0 then 0 else Suc (bitLength (n div 2)))"

declare bitLength.simps [simp del]

definition toDouble :: "nat \<Rightarrow> nat option" where
  "toDouble n =
     (if n < 2 ^ 53 then Some n
      else
        (let e = bitLength n - 53;
             q = n div 2 ^ e;
             r = n mod 2 ^ e;
             h = 2 ^ (e - 1);
             q' = (if h < r \<or> (r = h \<and> odd q) then q + 1 else q);
             m = q' * 2 ^ e
         in if 2 ^ 1024 \<le> m then None else Some m))"

text \<open>
  \<open>parseInt(s, 10)\<close> on a string: leading white space is skipped, one sign (code units
  43 and 45) is read, then the longest run of decimal digits; with no digit the result is
  \<open>NaN\<close>.
\<close>

definition parseInt :: "jsstring \<Rightarrow> jsint" where
  "parseInt s =
     (let t = dropWhile isWhiteSpace s;
          neg = (case t of [] \<Rightarrow> False | c # _ \<Rightarrow> c = 45);
          u = (case t of [] \<Rightarrow> t
               | c # r \<Rightarrow> if c = 43 \<or> c = 45 then r else t);
          ds = takeWhile isDigit u
      in if ds = [] then NaN
         else (case toDouble (digitsValue ds) of
                 None \<Rightarrow> if neg then NegInfinity else Infinity
               | Some m \<Rightarrow> Finite ((if neg then - 1 else 1) * int m)))"

text \<open>
  \<open>parseInt(v.toString(), 10)\<close> on a number \<open>v\<close>. \<open>Number.prototype.toString\<close> prints
  positional decimal notation for \<open>1 / 10 ^ 6 \<le> |v| < 10 ^ 21\<close>, whose integer part
  \<open>parseInt\<close> reads (truncation toward zero); outside that range it prints exponent
  notation (\<open>d.ddde+N\<close>), of which \<open>parseInt\<close> reads the leading digit only.
\<close>

definition leadingDigit :: "real \<Rightarrow> int" where
  "leadingDigit v = \<lfloor>\<bar>v\<bar> / 10 powr of_int \<lfloor>log 10 \<bar>v\<bar>\<rfloor>\<rfloor>"

definition parseIntNumber :: "real \<Rightarrow> jsint" where
  "parseIntNumber v =
     (if v = 0 then Finite 0
      else if 1 / 10 ^ 6 \<le> \<bar>v\<bar> \<and> \<bar>v\<bar> < 10 ^ 21
        then Finite ((if v < 0 then - 1 else 1) * \<lfloor>\<bar>v\<bar>\<rfloor>)
        else Finite ((if v < 0 then - 1 else 1) * leadingDigit v))"

text \<open>
  \<open>parseInt(v.toString(), 10)\<close> for the values \<open>toString\<close> is called on in this module.
  It is never called on \<open>undefined\<close>: \<open>|| 0\<close> replaces a falsy value first.
\<close>

fun parseIntToString :: "jsval \<Rightarrow> jsint" where
  "parseIntToString (JNum v) = parseIntNumber v"
| "parseIntToString (JStr s) = parseInt s"
| "parseIntToString Undefined = NaN"

text \<open>
  Modelled from the spec: \<open>pick\<close> of Utilities.js, which is not part of the module. The
  spec says of its one use here: effective margin = \<open>margin\<close> if provided, else 3.
\<close>

definition pick :: "'a option \<Rightarrow> 'a \<Rightarrow> 'a" where
  "pick v d = (case v of Some a \<Rightarrow> a | None \<Rightarrow> d)"

subsection \<open>The objects\<close>

text \<open>The box \<open>getBBox()\<close> returns.\<close>

record bbox =
  bb_x :: real
  bb_y :: real
  bb_width :: real
  bb_height :: real

text \<open>The \<open>CSSObject\<close> passed as \<open>style\<close>; an absent field is \<open>Undefined\<close>.\<close>

record css_object =
  stroke :: jsval
  strokeWidth :: jsval
  borderRadius :: jsval

text \<open>
  The rectangle \<open>renderer.rect(x, y, width, height, r)\<close> creates. The renderer is not part
  of the module: the overlay records the origin and the size the constructor was called
  with, its corner radius \<open>rect_r\<close>, the classes added, the attribute hashes passed to
  \<open>attr\<close> and the group it was added to.
\<close>

record overlay =
  rect_x :: real
  rect_y :: real
  rect_width :: real
  rect_height :: real
  rect_r :: jsint
  classNames :: "string list"
  attrs :: "string \<rightharpoonup> jsval"
  addedTo :: "ref option"

text \<open>
  The SVG element wrapper. \<open>element\<close> refers to its DOM node (the wrapper's type
  declares it as always present), \<open>attr_x\<close> and \<open>attr_y\<close> are the numbers
  \<open>+this.attr('x')\<close> and \<open>+this.attr('y')\<close> evaluate to; an absent optional field is
  \<open>None\<close>. Wrappers and the rectangles drawn as their borders are kept in two maps: no
  operation of the module is applied to a border rectangle as its \<open>this\<close>.

  \<open>bBox\<close> is the box object \<open>getBBox()\<close> returns. The query is not part of the module,
  and the module writes into the object it returns (\<open>bb.x += ...\<close>, \<open>bb.y += ...\<close>).
  \<open>bBoxCached\<close> says whether the query hands out the box object the wrapper keeps, so
  that the next call returns the object that was written to, or a new object on each call.
\<close>

record svg_element =
  element :: ref
  bBox :: bbox
  bBoxCached :: bool
  translateX :: "real option"
  translateY :: "real option"
  rotation :: "real option"
  attr_x :: real
  attr_y :: real
  parentGroup :: "ref option"
  focusBorder :: "ref option"

datatype listener = NoOp | Handler nat

text \<open>
  A DOM node: \<open>focusable\<close> says that it has a \<open>focus\<close> method, \<open>hcEvents\<close> is the
  registry the event helper keeps on the node (per event type, the listeners added),
  \<open>outline\<close> is \<open>style.outline\<close>.
\<close>

record dom_node =
  nodeName :: string
  focusable :: bool
  hcEvents :: "(string \<rightharpoonup> listener list) option"
  outline :: "string option"

text \<open>
  Calls into the host environment, in the order they are made. Every reference denotes an
  object, as it does in the source: the maps of wrappers and nodes are total, and only the
  scene of overlay rectangles, which \<open>destroy\<close> shrinks, is partial.
\<close>

datatype dom_call = AddEventListener ref string listener | Focus ref

record world =
  elems :: "ref \<Rightarrow> svg_element"
  nodes :: "ref \<Rightarrow> dom_node"
  overlays :: "ref \<rightharpoonup> overlay"
  nextRef :: ref
  styledMode :: bool
  isFirefox :: bool
  calls :: "dom_call list"

text \<open>\<open>chart.options.accessibility.keyboardNavigation.focusBorder\<close> and the chart.\<close>

record focus_style =
  color :: jsval
  lineWidth :: jsval
  style_borderRadius :: jsval

record focus_border_options =
  enabled :: bool
  hideBrowserFocusOutline :: bool
  margin :: "real option"
  style :: focus_style

record chart =
  focusBorderOptions :: focus_border_options
  focusElement :: "ref option"

subsection \<open>Collaborators\<close>

text \<open>
  Modelled from the spec: the \<open>destroy()\<close> operation on created overlays, which releases
  the overlay's rendering resources. The overlay leaves the scene.
\<close>

definition destroy :: "ref \<Rightarrow> world \<Rightarrow> world" where
  "destroy b w = w\<lparr>overlays := (overlays w)(b := None)\<rparr>"

text \<open>
  Modelled from the spec: the rectangle-construction primitive with its class, attribute
  and parent-attach operations. The spec gives the rectangle the corner radius it is
  called with, "defaulting to 0 when absent or non-numeric": a radius argument that is
  \<open>NaN\<close> leaves the rectangle with the radius 0. A rectangle is a value here;
  \<open>addFocusBorder\<close> stores it under the next free reference, which stands for the identity
  of the new object.
\<close>

definition rect :: "real \<Rightarrow> real \<Rightarrow> real \<Rightarrow> real \<Rightarrow> jsint \<Rightarrow> overlay" where
  "rect px py pw ph r =
     \<lparr>rect_x = px, rect_y = py, rect_width = pw, rect_height = ph,
      rect_r = (case r of NaN \<Rightarrow> Finite 0 | _ \<Rightarrow> r),
      classNames = [], attrs = Map.empty, addedTo = None\<rparr>"

definition addClass :: "string \<Rightarrow> overlay \<Rightarrow> overlay" where
  "addClass cl ov = ov\<lparr>classNames := classNames ov @ [cl]\<rparr>"

definition attr :: "(string \<times> jsval) list \<Rightarrow> overlay \<Rightarrow> overlay" where
  "attr hash ov = ov\<lparr>attrs := attrs ov ++ map_of hash\<rparr>"

definition add :: "ref option \<Rightarrow> overlay \<Rightarrow> overlay" where
  "add g ov = ov\<lparr>addedTo := g\<rparr>"

text \<open>
  Modelled from the spec: the event-listener registration primitive \<open>addEvent\<close> of
  Utilities.js. It registers the listener with the host and records it in the node's
  registry under the event type.
\<close>

definition addEvent :: "ref \<Rightarrow> string \<Rightarrow> listener \<Rightarrow> world \<Rightarrow> world" where
  "addEvent n ty f w =
     (let nd = nodes w n;
          reg = (case hcEvents nd of None \<Rightarrow> Map.empty | Some m \<Rightarrow> m);
          ls = (case reg ty of None \<Rightarrow> [] | Some l \<Rightarrow> l)
      in w\<lparr>nodes := (nodes w)(n := nd\<lparr>hcEvents := Some (reg(ty \<mapsto> ls @ [f]))\<rparr>),
           calls := calls w @ [AddEventListener n ty f]\<rparr>)"

text \<open>The native \<open>focus()\<close> call and the assignment to \<open>style.outline\<close>.\<close>

definition focus :: "ref \<Rightarrow> world \<Rightarrow> world" where
  "focus n w = w\<lparr>calls := calls w @ [Focus n]\<rparr>"

definition setOutline :: "ref \<Rightarrow> string \<Rightarrow> world \<Rightarrow> world" where
  "setOutline n v w = w\<lparr>nodes := (nodes w)(n := (nodes w n)\<lparr>outline := Some v\<rparr>)\<rparr>"

subsection \<open>removeFocusBorder and addFocusBorder\<close>

definition removeFocusBorder :: "ref \<Rightarrow> world \<Rightarrow> world" where
  "removeFocusBorder this w =
     (case focusBorder (elems w this) of
        None \<Rightarrow> w
      | Some b \<Rightarrow>
          (let w1 = destroy b w
           in w1\<lparr>elems := (elems w1)(this := (elems w1 this)\<lparr>focusBorder := None\<rparr>)\<rparr>))"

text \<open>
  Lines 70, 73 and 74: the box \<open>getBBox()\<close> returned, after the two assignments that
  add the translation of the element to its \<open>x\<close> and \<open>y\<close>.
\<close>

definition shiftedBBox :: "svg_element \<Rightarrow> bbox" where
  "shiftedBBox e =
     (let bb = bBox e;
          bb = bb\<lparr>bb_x := bb_x bb + (case translateX e of None \<Rightarrow> 0
                                        | Some t \<Rightarrow> if t \<noteq> 0 then t else 0)\<rparr>;
          bb = bb\<lparr>bb_y := bb_y bb + (case translateY e of None \<Rightarrow> 0
                                        | Some t \<Rightarrow> if t \<noteq> 0 then t else 0)\<rparr>
      in bb)"

text \<open>The origin of the border, lines 76 to 88 of the source.\<close>

definition borderPos :: "bool \<Rightarrow> string \<Rightarrow> svg_element \<Rightarrow> bbox \<Rightarrow> real \<Rightarrow> real \<times> real" where
  "borderPos firefox nodeNm e bb pad =
     (let borderPosX = bb_x bb - pad;
          borderPosY = bb_y bb - pad
      in if nodeNm = ''text'' then
           (let isRotated = (case rotation e of None \<Rightarrow> False | Some r \<Rightarrow> r \<noteq> 0)
            in (attr_x e - (bb_width bb * 0.5) - pad +
                  (if isRotated then bb_height bb * 0.068 else 0),
                attr_y e - (bb_height bb * 0.5) - pad +
                  (if isRotated then 0
                   else - bb_height bb * (if firefox then 0.25 else 0.068))))
         else (borderPosX, borderPosY))"

text \<open>The radius argument: \<open>parseInt((style && style.borderRadius || 0).toString(), 10)\<close>.\<close>

definition radiusArg :: "css_object option \<Rightarrow> jsint" where
  "radiusArg st =
     parseIntToString
       (let v = (case st of None \<Rightarrow> Undefined | Some s \<Rightarrow> borderRadius s)
        in if truthy v then v else JNum 0)"

text \<open>
  The rectangle of lines 90 to 108: built by \<open>renderer.rect\<close>, given its class, its
  stacking order and its parent group, and its stroke unless the renderer is in styled
  mode. The source sets the stroke through the reference it has just stored in
  \<open>this.focusBorder\<close>; here the rectangle is completed before it is stored.
\<close>

definition newFocusBorder :: "world \<Rightarrow> svg_element \<Rightarrow> real option \<Rightarrow> css_object option \<Rightarrow> overlay" where
  "newFocusBorder w e mrg st =
     (let bb = shiftedBBox e;
          pad = pick mrg 3;
          (borderPosX, borderPosY) =
             borderPos (isFirefox w) (nodeName (nodes w (element e))) e bb pad;
          ov = add (parentGroup e)
                 (attr [(''zIndex'', JNum 99)]
                   (addClass ''highcharts-focus-border''
                     (rect borderPosX borderPosY
                        (bb_width bb + 2 * pad) (bb_height bb + 2 * pad) (radiusArg st))))
      in if \<not> styledMode w then
           attr [(''stroke'', (case st of None \<Rightarrow> Undefined | Some s \<Rightarrow> stroke s)),
                 (''stroke-width'',
                    (case st of None \<Rightarrow> Undefined | Some s \<Rightarrow> strokeWidth s))] ov
         else ov)"

text \<open>
  \<open>addFocusBorder\<close>. When \<open>getBBox()\<close> handed out the box the wrapper keeps, the
  assignments of lines 73 and 74 have changed that box.
\<close>

definition addFocusBorder :: "ref \<Rightarrow> real option \<Rightarrow> css_object option \<Rightarrow> world \<Rightarrow> world" where
  "addFocusBorder this mrg st w0 =
     (let w = (if focusBorder (elems w0 this) \<noteq> None then removeFocusBorder this w0 else w0);
          e = elems w this;
          b = nextRef w
      in w\<lparr>overlays := (overlays w)(b \<mapsto> newFocusBorder w e mrg st),
           nextRef := Suc b,
           elems := (elems w)
             (this := e\<lparr>bBox := (if bBoxCached e then shiftedBBox e else bBox e),
                         focusBorder := Some b\<rparr>)\<rparr>)"

subsection \<open>setFocusToElement\<close>

text \<open>The test \<open>hcEvents && hcEvents.focusin\<close>: an array is truthy, also when empty.\<close>

definition hasFocusin :: "dom_node \<Rightarrow> bool" where
  "hasFocusin nd = (case hcEvents nd of None \<Rightarrow> False | Some m \<Rightarrow> m ''focusin'' \<noteq> None)"

text \<open>Lines 149 to 168 of the source: the browser focus.\<close>

definition setBrowserFocus :: "focus_border_options \<Rightarrow> ref option \<Rightarrow> world \<Rightarrow> world" where
  "setBrowserFocus opts browserFocusElement w =
     (case browserFocusElement of
        None \<Rightarrow> w
      | Some n \<Rightarrow>
          if focusable (nodes w n) then
            (let w1 = (if \<not> hasFocusin (nodes w n) then addEvent n ''focusin'' NoOp w else w);
                 w2 = focus n w1
             in if hideBrowserFocusOutline opts then setOutline n ''none'' w2 else w2)
          else w)"

definition setFocusToElement :: "chart \<Rightarrow> ref \<Rightarrow> ref option \<Rightarrow> world \<Rightarrow> chart \<times> world" where
  "setFocusToElement c svgElement focusElem w =
     (let opts = focusBorderOptions c;
          browserFocusElement =
            (case focusElem of Some n \<Rightarrow> Some n
             | None \<Rightarrow> Some (element (elems w svgElement)));
          w1 = setBrowserFocus opts browserFocusElement w
      in if enabled opts then
           (let w2 = (case focusElement c of
                        Some old \<Rightarrow> removeFocusBorder old w1
                      | None \<Rightarrow> w1);
                w3 = addFocusBorder svgElement (margin opts)
                       (Some \<lparr>stroke = color (style opts),
                              strokeWidth = lineWidth (style opts),
                              borderRadius = style_borderRadius (style opts)\<rparr>) w2
            in (c\<lparr>focusElement := Some svgElement\<rparr>, w3))
         else (c, w1))"

subsection \<open>Observations\<close>

text \<open>
  The overlay an element owns: the rectangle its \<open>focusBorder\<close> slot refers to, while
  that rectangle is in the scene.
\<close>

definition ownedOverlay :: "world \<Rightarrow> ref \<Rightarrow> overlay option" where
  "ownedOverlay w e = (case focusBorder (elems w e) of None \<Rightarrow> None | Some b \<Rightarrow> overlays w b)"

text \<open>Origin and size of a rectangle.\<close>

definition geometry :: "overlay \<Rightarrow> (real \<times> real) \<times> (real \<times> real)" where
  "geometry ov = ((rect_x ov, rect_y ov), (rect_width ov, rect_height ov))"

text \<open>The node \<open>focusElement || svgElement.element\<close> denotes.\<close>

definition domCandidate :: "world \<Rightarrow> ref \<Rightarrow> ref option \<Rightarrow> ref" where
  "domCandidate w svgElement focusElem =
     (case focusElem of Some n \<Rightarrow> n | None \<Rightarrow> element (elems w svgElement))"



text \<open>The listeners the registry of a node holds for \<open>focusin\<close>.\<close>

definition focusinListeners :: "dom_node \<Rightarrow> listener list" where
  "focusinListeners nd =
     (case hcEvents nd of None \<Rightarrow> []
      | Some m \<Rightarrow> (case m ''focusin'' of None \<Rightarrow> [] | Some ls \<Rightarrow> ls))"

text \<open>
  The states of a chart: it is created with no focus element and no overlay, and every
  later state comes from a call of \<open>setFocusToElement\<close>, whatever the focus border
  options are at that moment.
\<close>

inductive reachable :: "chart \<times> world \<Rightarrow> bool" where
  created: "focusElement c = None \<Longrightarrow> overlays w = Map.empty \<Longrightarrow>
            (\<forall>e. focusBorder (elems w e) = None) \<Longrightarrow> reachable (c, w)"
| focused: "reachable (c, w) \<Longrightarrow>
            reachable (setFocusToElement (c\<lparr>focusBorderOptions := opts\<rparr>) e d w)"

text \<open>
  One active border per chart: an element that owns a border is the recorded focus
  element, and every rectangle in the scene is the border of the recorded focus element.
\<close>

definition singleFocus :: "chart \<times> world \<Rightarrow> bool" where
  "singleFocus s =
     (case s of (c, w) \<Rightarrow>
        (\<forall>e. focusBorder (elems w e) \<noteq> None \<longrightarrow> focusElement c = Some e) \<and>
        (\<forall>b. overlays w b \<noteq> None \<longrightarrow>
           (\<exists>e. focusElement c = Some e \<and> focusBorder (elems w e) = Some b)))"

subsection \<open>Example scene\<close>

text \<open>
  Wrapper 1 is a text element on node 1, every other wrapper is a path with bounding box
  (10, 20, 30, 5) translated by (5, 0). The options are the defaults of the library.
\<close>

definition exBox :: svg_element where
  "exBox = \<lparr>element = 0, bBox = \<lparr>bb_x = 10, bb_y = 20, bb_width = 30, bb_height = 5\<rparr>,
     bBoxCached = False,
     translateX = Some 5, translateY = Some 0, rotation = None, attr_x = 0, attr_y = 0,
     parentGroup = Some 7, focusBorder = None\<rparr>"

definition exText :: svg_element where
  "exText = \<lparr>element = 1, bBox = \<lparr>bb_x = 80, bb_y = 42, bb_width = 40, bb_height = 10\<rparr>,
     bBoxCached = False,
     translateX = None, translateY = None, rotation = None, attr_x = 100, attr_y = 50,
     parentGroup = Some 7, focusBorder = None\<rparr>"

definition exNode :: "string \<Rightarrow> dom_node" where
  "exNode nm = \<lparr>nodeName = nm, focusable = True, hcEvents = None, outline = None\<rparr>"

definition exWorld :: "bool \<Rightarrow> world" where
  "exWorld ff = \<lparr>elems = (\<lambda>r. if r = 1 then exText else exBox),
     nodes = (\<lambda>n. if n = 1 then exNode ''text'' else exNode ''path''),
     overlays = Map.empty, nextRef = 100, styledMode = False, isFirefox = ff, calls = []\<rparr>"

definition exBordered :: world where
  "exBordered = (exWorld False)
     \<lparr>elems := (elems (exWorld False))(0 := exBox\<lparr>focusBorder := Some 40\<rparr>),
      overlays := [40 \<mapsto> rect 12 17 36 11 (Finite 0)]\<rparr>"

text \<open>The same scene, with a path whose \<open>getBBox()\<close> hands out the box it keeps.\<close>

definition exCached :: world where
  "exCached = (exWorld False)
     \<lparr>elems := (elems (exWorld False))(0 := exBox\<lparr>bBoxCached := True\<rparr>)\<rparr>"

definition exListening :: world where
  "exListening = (exWorld False)
     \<lparr>nodes := (nodes (exWorld False))
        (0 := (exNode ''path'')\<lparr>hcEvents := Some [''focusin'' \<mapsto> [Handler 1]]\<rparr>)\<rparr>"

text \<open>
  Node 0 after its \<open>focusin\<close> listeners have been removed: the registry keeps the entry,
  with an empty array.
\<close>

definition exEmptied :: world where
  "exEmptied = (exWorld False)
     \<lparr>nodes := (nodes (exWorld False))
        (0 := (exNode ''path'')\<lparr>hcEvents := Some [''focusin'' \<mapsto> []]\<rparr>)\<rparr>"

definition exStyle :: "jsval \<Rightarrow> css_object" where
  "exStyle r = \<lparr>stroke = JStr (js ''#335cad''), strokeWidth = JNum 2, borderRadius = r\<rparr>"

definition exOptions :: "bool \<Rightarrow> focus_border_options" where
  "exOptions en = \<lparr>enabled = en, hideBrowserFocusOutline = True, margin = Some 2,
     style = \<lparr>color = JStr (js ''#335cad''), lineWidth = JNum 2, style_borderRadius = JNum 3\<rparr>\<rparr>"

definition exChart :: "bool \<Rightarrow> chart" where
  "exChart en = \<lparr>focusBorderOptions = exOptions en, focusElement = None\<rparr>"

definition exFocusA :: "chart \<times> world" where
  "exFocusA = setFocusToElement (exChart True) 0 None (exWorld False)"

definition exFocusAB :: "chart \<times> world" where
  "exFocusAB = setFocusToElement (fst exFocusA) 1 None (snd exFocusA)"

definition exFocusAThenOff :: "chart \<times> world" where
  "exFocusAThenOff =
     setFocusToElement ((fst exFocusA)\<lparr>focusBorderOptions := exOptions False\<rparr>) 1 None
       (snd exFocusA)"

lemmas ex_defs = exWorld_def exBox_def exText_def exNode_def

lemmas parse_defs = parseInt_def isWhiteSpace_def isDigit_def digitsValue_def toDouble_def js_def

lemmas model_defs = setFocusToElement_def setBrowserFocus_def addEvent_def focus_def
  setOutline_def hasFocusin_def addFocusBorder_def removeFocusBorder_def destroy_def
  newFocusBorder_def shiftedBBox_def borderPos_def radiusArg_def rect_def addClass_def attr_def
  add_def pick_def Let_def parseIntNumber_def

section \<open>What the operations change\<close>

subsection \<open>removeFocusBorder\<close>

lemma removeFocusBorder_elems:
  "elems (removeFocusBorder e w) = (elems w)(e := (elems w e)\<lparr>focusBorder := None\<rparr>)"
  by (auto simp: removeFocusBorder_def destroy_def Let_def split: option.splits)

lemma removeFocusBorder_overlays:
  "overlays (removeFocusBorder e w) =
     (case focusBorder (elems w e) of None \<Rightarrow> overlays w | Some b \<Rightarrow> (overlays w)(b := None))"
  by (simp add: removeFocusBorder_def destroy_def Let_def split: option.splits)

lemma removeFocusBorder_frame:
  "nodes (removeFocusBorder e w) = nodes w"
  "nextRef (removeFocusBorder e w) = nextRef w"
  "styledMode (removeFocusBorder e w) = styledMode w"
  "isFirefox (removeFocusBorder e w) = isFirefox w"
  "calls (removeFocusBorder e w) = calls w"
  by (simp_all add: removeFocusBorder_def destroy_def Let_def split: option.splits)

lemma removeFocusBorder_none:
  "focusBorder (elems w e) = None \<Longrightarrow> removeFocusBorder e w = w"
  by (simp add: removeFocusBorder_def)

subsection \<open>addFocusBorder\<close>

lemma shiftedBBox_focusBorder: "shiftedBBox (e\<lparr>focusBorder := fb\<rparr>) = shiftedBBox e"
  by (simp add: shiftedBBox_def)

text \<open>The new rectangle does not depend on the slot that is being replaced.\<close>

lemma newFocusBorder_frame:
  assumes "isFirefox w' = isFirefox w" and "styledMode w' = styledMode w"
    and "nodeName (nodes w' (element e)) = nodeName (nodes w (element e))"
  shows "newFocusBorder w' (e\<lparr>focusBorder := fb\<rparr>) mrg st = newFocusBorder w e mrg st"
  using assms by (simp add: newFocusBorder_def shiftedBBox_def borderPos_def Let_def)

lemma addFocusBorder_eq:
  "addFocusBorder this mrg st w =
     (removeFocusBorder this w)
       \<lparr>overlays := (overlays (removeFocusBorder this w))
                      (nextRef w \<mapsto> newFocusBorder w (elems w this) mrg st),
        nextRef := Suc (nextRef w),
        elems := (elems w)
          (this := (elems w this)
             \<lparr>bBox := (if bBoxCached (elems w this) then shiftedBBox (elems w this)
                       else bBox (elems w this)),
              focusBorder := Some (nextRef w)\<rparr>)\<rparr>"
proof (cases "focusBorder (elems w this)")
  case None
  then show ?thesis
    by (simp add: addFocusBorder_def removeFocusBorder_none Let_def)
next
  case (Some b)
  have "newFocusBorder (removeFocusBorder this w) ((elems w this)\<lparr>focusBorder := None\<rparr>) mrg st =
        newFocusBorder w (elems w this) mrg st"
    by (rule newFocusBorder_frame) (simp_all add: removeFocusBorder_frame)
  with Some show ?thesis
    by (simp add: addFocusBorder_def Let_def removeFocusBorder_frame removeFocusBorder_elems
        shiftedBBox_focusBorder)
qed

lemma addFocusBorder_elems:
  "elems (addFocusBorder this mrg st w) =
     (elems w)
       (this := (elems w this)
          \<lparr>bBox := (if bBoxCached (elems w this) then shiftedBBox (elems w this)
                    else bBox (elems w this)),
           focusBorder := Some (nextRef w)\<rparr>)"
  by (simp add: addFocusBorder_eq)

lemma addFocusBorder_overlays:
  "overlays (addFocusBorder this mrg st w) =
     (overlays (removeFocusBorder this w))(nextRef w \<mapsto> newFocusBorder w (elems w this) mrg st)"
  by (simp add: addFocusBorder_eq)

lemma addFocusBorder_frame:
  "nodes (addFocusBorder this mrg st w) = nodes w"
  "nextRef (addFocusBorder this mrg st w) = Suc (nextRef w)"
  "styledMode (addFocusBorder this mrg st w) = styledMode w"
  "isFirefox (addFocusBorder this mrg st w) = isFirefox w"
  "calls (addFocusBorder this mrg st w) = calls w"
  by (simp_all add: addFocusBorder_eq removeFocusBorder_frame)

lemma ownedOverlay_addFocusBorder:
  "ownedOverlay (addFocusBorder this mrg st w) this = Some (newFocusBorder w (elems w this) mrg st)"
  by (simp add: ownedOverlay_def addFocusBorder_elems addFocusBorder_overlays)

lemma geometry_newFocusBorder:
  "geometry (newFocusBorder w e mrg st) =
     (borderPos (isFirefox w) (nodeName (nodes w (element e))) e (shiftedBBox e) (pick mrg 3),
      (bb_width (bBox e) + 2 * pick mrg 3, bb_height (bBox e) + 2 * pick mrg 3))"
  by (simp add: geometry_def newFocusBorder_def shiftedBBox_def Let_def rect_def addClass_def
      attr_def add_def split: prod.splits)


subsection \<open>setFocusToElement\<close>

lemma setBrowserFocus_frame:
  "elems (setBrowserFocus opts t w) = elems w"
  "overlays (setBrowserFocus opts t w) = overlays w"
  "nextRef (setBrowserFocus opts t w) = nextRef w"
  "styledMode (setBrowserFocus opts t w) = styledMode w"
  "isFirefox (setBrowserFocus opts t w) = isFirefox w"
  by (simp_all add: setBrowserFocus_def addEvent_def focus_def setOutline_def Let_def
      split: option.splits)

lemma setBrowserFocus_node:
  "nodeName (nodes (setBrowserFocus opts t w) n) = nodeName (nodes w n)"
  "focusable (nodes (setBrowserFocus opts t w) n) = focusable (nodes w n)"
  by (simp_all add: setBrowserFocus_def addEvent_def focus_def setOutline_def Let_def
      split: option.splits)

lemma setBrowserFocus_calls:
  "calls (setBrowserFocus opts (Some n) w) =
     calls w @
       (if focusable (nodes w n)
        then (if hasFocusin (nodes w n) then [] else [AddEventListener n ''focusin'' NoOp]) @
             [Focus n]
        else [])"
  by (simp add: setBrowserFocus_def addEvent_def focus_def setOutline_def Let_def)

lemma setBrowserFocus_hcEvents:
  "hcEvents (nodes (setBrowserFocus opts (Some n) w) n) =
     (if focusable (nodes w n) \<and> \<not> hasFocusin (nodes w n)
      then Some ((case hcEvents (nodes w n) of None \<Rightarrow> Map.empty | Some m \<Rightarrow> m)
                   (''focusin'' \<mapsto> [NoOp]))
      else hcEvents (nodes w n))"
  by (auto simp: setBrowserFocus_def addEvent_def focus_def setOutline_def Let_def hasFocusin_def
      split: option.splits)

lemma setFocusToElement_disabled:
  "\<not> enabled (focusBorderOptions c) \<Longrightarrow>
   setFocusToElement c e d w =
     (c, setBrowserFocus (focusBorderOptions c) (Some (domCandidate w e d)) w)"
  by (simp add: setFocusToElement_def domCandidate_def Let_def split: option.splits)

lemma setFocusToElement_enabled:
  "enabled (focusBorderOptions c) \<Longrightarrow>
   setFocusToElement c e d w =
     (c\<lparr>focusElement := Some e\<rparr>,
      addFocusBorder e (margin (focusBorderOptions c))
        (Some \<lparr>stroke = color (style (focusBorderOptions c)),
               strokeWidth = lineWidth (style (focusBorderOptions c)),
               borderRadius = style_borderRadius (style (focusBorderOptions c))\<rparr>)
        (case focusElement c of
           Some old \<Rightarrow> removeFocusBorder old
                         (setBrowserFocus (focusBorderOptions c) (Some (domCandidate w e d)) w)
         | None \<Rightarrow> setBrowserFocus (focusBorderOptions c) (Some (domCandidate w e d)) w))"
  by (simp add: setFocusToElement_def domCandidate_def Let_def split: option.splits)

lemma setFocusToElement_nodes:
  "nodes (snd (setFocusToElement c e d w)) =
     nodes (setBrowserFocus (focusBorderOptions c) (Some (domCandidate w e d)) w)"
  by (cases "enabled (focusBorderOptions c)")
     (simp_all add: setFocusToElement_disabled setFocusToElement_enabled addFocusBorder_frame
        removeFocusBorder_frame split: option.splits)

lemma setFocusToElement_calls:
  "calls (snd (setFocusToElement c e d w)) =
     calls (setBrowserFocus (focusBorderOptions c) (Some (domCandidate w e d)) w)"
  by (cases "enabled (focusBorderOptions c)")
     (simp_all add: setFocusToElement_disabled setFocusToElement_enabled addFocusBorder_frame
        removeFocusBorder_frame split: option.splits)

lemma enabled_focusElement:
  "enabled (focusBorderOptions c) \<Longrightarrow> focusElement (fst (setFocusToElement c e d w)) = Some e"
  by (simp add: setFocusToElement_enabled)

lemma enabled_focusBorder:
  "enabled (focusBorderOptions c) \<Longrightarrow>
   focusBorder (elems (snd (setFocusToElement c e d w)) x) =
     (if x = e then Some (nextRef w)
      else if focusElement c = Some x then None
      else focusBorder (elems w x))"
  by (simp add: setFocusToElement_enabled addFocusBorder_elems removeFocusBorder_elems
      setBrowserFocus_frame removeFocusBorder_frame split: option.splits)

lemma enabled_overlays:
  "enabled (focusBorderOptions c) \<Longrightarrow>
   overlays (snd (setFocusToElement c e d w)) b =
     (if b = nextRef w then overlays (snd (setFocusToElement c e d w)) b
      else if (\<exists>old. focusElement c = Some old \<and> focusBorder (elems w old) = Some b)
              \<or> focusBorder (elems w e) = Some b then None
      else overlays w b)"
  by (auto simp: setFocusToElement_enabled addFocusBorder_overlays removeFocusBorder_elems
      removeFocusBorder_overlays setBrowserFocus_frame removeFocusBorder_frame
      split: option.splits)

lemma enabled_owned:
  "enabled (focusBorderOptions c) \<Longrightarrow>
   overlays (snd (setFocusToElement c e d w)) (nextRef w) \<noteq> None"
  by (simp add: setFocusToElement_enabled addFocusBorder_overlays setBrowserFocus_frame
      removeFocusBorder_frame split: option.splits)

lemma enabled_nextRef:
  "enabled (focusBorderOptions c) \<Longrightarrow>
   nextRef (snd (setFocusToElement c e d w)) = Suc (nextRef w)"
  by (simp add: setFocusToElement_enabled addFocusBorder_frame removeFocusBorder_frame
      setBrowserFocus_frame split: option.splits)

subsection \<open>The invariant of the chart\<close>

lemma singleFocus_created:
  "focusElement c = None \<Longrightarrow> overlays w = Map.empty \<Longrightarrow>
   (\<forall>e. focusBorder (elems w e) = None) \<Longrightarrow> singleFocus (c, w)"
  by (simp add: singleFocus_def)

lemma singleFocus_step:
  assumes "singleFocus (c, w)"
  shows "singleFocus (setFocusToElement (c\<lparr>focusBorderOptions := opts\<rparr>) e d w)"
proof (cases "enabled opts")
  case False
  then have "\<not> enabled (focusBorderOptions (c\<lparr>focusBorderOptions := opts\<rparr>))" by simp
  from setFocusToElement_disabled [OF this] assms show ?thesis
    by (simp add: singleFocus_def setBrowserFocus_frame)
next
  case True
  let ?c = "c\<lparr>focusBorderOptions := opts\<rparr>"
  from True have en: "enabled (focusBorderOptions ?c)" by simp
  obtain c' w' where s: "setFocusToElement ?c e d w = (c', w')"
    by (cases "setFocusToElement ?c e d w")
  have fe: "focusElement c' = Some e"
    using enabled_focusElement [OF en, of e d w] s by simp
  have fb: "focusBorder (elems w' x) =
     (if x = e then Some (nextRef w) else if focusElement c = Some x then None
      else focusBorder (elems w x))" for x
    using enabled_focusBorder [OF en, of e d w x] s by simp
  have ov: "overlays w' b =
     (if b = nextRef w then overlays w' b
      else if (\<exists>old. focusElement c = Some old \<and> focusBorder (elems w old) = Some b)
              \<or> focusBorder (elems w e) = Some b then None
      else overlays w b)" for b
    using enabled_overlays [OF en, of e d w b] s by simp
  from assms have i1: "focusBorder (elems w x) \<noteq> None \<Longrightarrow> focusElement c = Some x" for x
    by (simp add: singleFocus_def)
  from assms have i2: "overlays w b \<noteq> None \<Longrightarrow>
      \<exists>x. focusElement c = Some x \<and> focusBorder (elems w x) = Some b" for b
    by (simp add: singleFocus_def)
  have owner: "focusBorder (elems w' x) \<noteq> None \<Longrightarrow> focusElement c' = Some x" for x
    using fe i1 [of x] by (simp add: fb split: if_splits)
  have scene: "\<exists>x. focusElement c' = Some x \<and> focusBorder (elems w' x) = Some b"
    if "overlays w' b \<noteq> None" for b
  proof (cases "b = nextRef w")
    case True
    then show ?thesis using fe by (simp add: fb)
  next
    case False
    with that ov [of b] have "overlays w b \<noteq> None"
      and "\<not> (\<exists>old. focusElement c = Some old \<and> focusBorder (elems w old) = Some b)"
      by (auto split: if_splits)
    with i2 [of b] show ?thesis by blast
  qed
  from owner scene show ?thesis
    unfolding s singleFocus_def by simp
qed

lemma reachable_singleFocus: "reachable s \<Longrightarrow> singleFocus s"
  by (induction rule: reachable.induct) (simp_all add: singleFocus_created singleFocus_step)

subsection \<open>Reading integers\<close>

text \<open>
  \<open>parseInt\<close> at work: rounding to a double, a no-break space before the number, a sign
  and a unit behind it, and a string that holds no number.
\<close>

lemma parseInt_examples:
  "parseInt (js ''9007199254740993'') = Finite 9007199254740992"
  "parseInt (160 # js ''5'') = Finite 5"
  "parseInt (js ''  -12px'') = Finite (- 12)"
  "parseInt (js ''abc'') = NaN"
  by (simp_all add: parse_defs bitLength.simps)
















section \<open>The claims\<close>

text \<open>
  C1. After \<open>setFocusToElement(chart, A)\<close> and then \<open>setFocusToElement(chart, B)\<close>, with
  \<open>A \<noteq> B\<close> and the focus border enabled, A owns no overlay and the overlay it owned has
  left the scene, B owns one overlay that is in the scene, and B is the recorded focus
  element. The chart has one \<open>focusElement\<close> slot, so at most one element is recorded at
  any time; in every reachable state, moreover, only the recorded element owns a border and
  the scene holds no rectangle but that border.
\<close>

theorem setFocusToElement_single_border:
  assumes "A \<noteq> B" and "enabled (focusBorderOptions c)"
  shows "(case setFocusToElement c A dA w of
            (c1, w1) \<Rightarrow>
              (case setFocusToElement c1 B dB w1 of
                 (c2, w2) \<Rightarrow>
                   focusBorder (elems w2 A) = None \<and>
                   (\<forall>b. focusBorder (elems w1 A) = Some b \<longrightarrow> overlays w2 b = None) \<and>
                   (\<exists>b. focusBorder (elems w2 B) = Some b \<and> overlays w2 b \<noteq> None) \<and>
                   focusElement c2 = Some B)) \<and>
         (\<forall>s. reachable s \<longrightarrow> singleFocus s)"
proof -
  obtain c1 w1 where s1: "setFocusToElement c A dA w = (c1, w1)"
    by (cases "setFocusToElement c A dA w")
  obtain c2 w2 where s2: "setFocusToElement c1 B dB w1 = (c2, w2)"
    by (cases "setFocusToElement c1 B dB w1")
  have c1: "c1 = c\<lparr>focusElement := Some A\<rparr>"
    using s1 assms(2) by (simp add: setFocusToElement_enabled)
  then have en1: "enabled (focusBorderOptions c1)" and f1: "focusElement c1 = Some A"
    using assms(2) by simp_all
  have fbA1: "focusBorder (elems w1 A) = Some (nextRef w)"
    using enabled_focusBorder [OF assms(2), of A dA w A] s1 by simp
  have nr: "nextRef w1 = Suc (nextRef w)"
    using enabled_nextRef [OF assms(2), of A dA w] s1 by simp
  have fbA2: "focusBorder (elems w2 A) = None"
    using enabled_focusBorder [OF en1, of B dB w1 A] s2 f1 assms(1) by simp
  have fbB2: "focusBorder (elems w2 B) = Some (nextRef w1)"
    using enabled_focusBorder [OF en1, of B dB w1 B] s2 by simp
  have live: "overlays w2 (nextRef w1) \<noteq> None"
    using enabled_owned [OF en1, of B dB w1] s2 by simp
  have gone: "overlays w2 (nextRef w) = None"
    using enabled_overlays [OF en1, of B dB w1 "nextRef w"] s2 f1 fbA1 nr by simp
  have fe2: "focusElement c2 = Some B"
    using enabled_focusElement [OF en1, of B dB w1] s2 by simp
  show ?thesis
    using fbA1 fbA2 fbB2 live gone fe2 reachable_singleFocus by (simp add: s1 s2)
qed

theorem setFocusToElement_single_border_witness:
  "(0::nat) \<noteq> 1 \<and> enabled (focusBorderOptions (exChart True)) \<and>
   focusBorder (elems (snd exFocusA) 0) = Some 100 \<and>
   focusBorder (elems (snd exFocusAB) 0) = None \<and>
   overlays (snd exFocusAB) 100 = None \<and>
   (\<exists>b. focusBorder (elems (snd exFocusAB) 1) = Some b \<and> overlays (snd exFocusAB) b \<noteq> None) \<and>
   focusElement (fst exFocusAB) = Some 1 \<and>
   reachable exFocusAB \<and> singleFocus exFocusAB"
proof -
  have a: "(0::nat) \<noteq> 1" by simp
  have b: "enabled (focusBorderOptions (exChart True))"
    by (simp add: exChart_def exOptions_def)
  note t = setFocusToElement_single_border [OF a b, where dA = None and dB = None
      and w = "exWorld False"]
  have r0: "reachable (exChart True, exWorld False)"
    by (rule reachable.created) (simp_all add: exChart_def ex_defs)
  have "reachable (setFocusToElement ((exChart True)\<lparr>focusBorderOptions := exOptions True\<rparr>) 0 None
      (exWorld False))"
    using r0 by (rule reachable.focused)
  then have r1: "reachable (fst exFocusA, snd exFocusA)"
    by (simp add: exFocusA_def exChart_def)
  have "reachable (setFocusToElement ((fst exFocusA)\<lparr>focusBorderOptions := exOptions True\<rparr>) 1 None
      (snd exFocusA))"
    using r1 by (rule reachable.focused)
  moreover have "focusBorderOptions (fst exFocusA) = exOptions True"
    by (simp add: exFocusA_def setFocusToElement_def Let_def exChart_def exOptions_def)
  then have "(fst exFocusA)\<lparr>focusBorderOptions := exOptions True\<rparr> = fst exFocusA"
    by (metis chart.update_convs(1) chart.surjective)
  ultimately have r2: "reachable exFocusAB"
    by (simp add: exFocusAB_def)
  from t have inv: "singleFocus exFocusAB"
    using r2 by blast
  have fa: "focusBorder (elems (snd exFocusA) 0) = Some 100"
    by (simp add: exFocusA_def model_defs exChart_def exOptions_def ex_defs)
  from t fa have
    "focusBorder (elems (snd exFocusAB) 0) = None \<and>
     overlays (snd exFocusAB) 100 = None \<and>
     (\<exists>b. focusBorder (elems (snd exFocusAB) 1) = Some b \<and> overlays (snd exFocusAB) b \<noteq> None) \<and>
     focusElement (fst exFocusAB) = Some 1"
    by (simp add: split_beta exFocusAB_def exFocusA_def)
  with a b fa r2 inv show ?thesis by simp
qed

text \<open>
  C2. For a text element (node name \<open>text\<close>) with bounding box width \<open>wd\<close> and height
  \<open>ht\<close>, attributes \<open>x\<close> and \<open>y\<close> and margin \<open>m\<close> (3 when none is given),
  \<open>addFocusBorder\<close> puts the origin of the border at
  \<open>x - wd * 0.5 - m + (if rotated then ht * 0.068 else 0)\<close> and
  \<open>y - ht * 0.5 - m + (if rotated then 0 else - ht * (if isFirefox then 0.25 else 0.068))\<close>,
  where rotated means a rotation that is present and not zero. With \<open>wd = 40\<close>,
  \<open>ht = 10\<close>, \<open>x = 100\<close>, \<open>y = 50\<close>, \<open>m = 3\<close> and no rotation the origin is
  (77, 41.32), and (77, 39.5) on Firefox. The arithmetic is that of the real numbers.
\<close>

theorem addFocusBorder_text_origin:
  assumes "nodeName (nodes w (element (elems w this))) = ''text''"
  shows "map_option (fst \<circ> geometry) (ownedOverlay (addFocusBorder this mrg st w) this) =
     (let e = elems w this;
          wd = bb_width (bBox e);
          ht = bb_height (bBox e);
          m = (case mrg of None \<Rightarrow> 3 | Some m \<Rightarrow> m);
          rotated = (\<exists>r. rotation e = Some r \<and> r \<noteq> 0)
      in Some (attr_x e - wd * 0.5 - m + (if rotated then ht * 0.068 else 0),
               attr_y e - ht * 0.5 - m +
                 (if rotated then 0 else - ht * (if isFirefox w then 0.25 else 0.068))))"
  using assms
  by (auto simp: ownedOverlay_addFocusBorder geometry_newFocusBorder shiftedBBox_def
      borderPos_def pick_def Let_def split: option.splits)

theorem addFocusBorder_text_origin_witness:
  "nodeName (nodes (exWorld False) (element (elems (exWorld False) 1))) = ''text'' \<and>
   nodeName (nodes (exWorld True) (element (elems (exWorld True) 1))) = ''text'' \<and>
   map_option (fst \<circ> geometry) (ownedOverlay (addFocusBorder 1 (Some 3) None (exWorld False)) 1)
     = Some (77, 41.32) \<and>
   map_option (fst \<circ> geometry) (ownedOverlay (addFocusBorder 1 (Some 3) None (exWorld True)) 1)
     = Some (77, 39.5)"
proof -
  have a: "nodeName (nodes (exWorld False) (element (elems (exWorld False) 1))) = ''text''"
    by (simp add: ex_defs)
  have b: "nodeName (nodes (exWorld True) (element (elems (exWorld True) 1))) = ''text''"
    by (simp add: ex_defs)
  show ?thesis
    using a b addFocusBorder_text_origin [OF a, where mrg = "Some 3" and st = None]
      addFocusBorder_text_origin [OF b, where mrg = "Some 3" and st = None]
    by (simp add: ex_defs)
qed

text \<open>
  C3. For an element that is not a text element, with bounding box \<open>(x, y, width, height)\<close>,
  translation offsets \<open>tx\<close> and \<open>ty\<close> (0 when absent) and margin \<open>m\<close> (3 when none is
  given), \<open>addFocusBorder\<close> creates the rectangle with origin \<open>(x + tx - m, y + ty - m)\<close>
  and size \<open>(width + 2 * m, height + 2 * m)\<close>. The box (10, 20, 30, 5) with \<open>tx = 5\<close>,
  \<open>ty = 0\<close> and \<open>m = 3\<close> gives the origin (12, 17) and the size (36, 11).
\<close>

theorem addFocusBorder_box_geometry:
  assumes "nodeName (nodes w (element (elems w this))) \<noteq> ''text''"
  shows "map_option geometry (ownedOverlay (addFocusBorder this mrg st w) this) =
     (let e = elems w this;
          bb = bBox e;
          tx = (case translateX e of None \<Rightarrow> 0 | Some t \<Rightarrow> t);
          ty = (case translateY e of None \<Rightarrow> 0 | Some t \<Rightarrow> t);
          m = (case mrg of None \<Rightarrow> 3 | Some m \<Rightarrow> m)
      in Some ((bb_x bb + tx - m, bb_y bb + ty - m),
               (bb_width bb + 2 * m, bb_height bb + 2 * m)))"
  using assms
  by (auto simp: ownedOverlay_addFocusBorder geometry_newFocusBorder shiftedBBox_def
      borderPos_def pick_def Let_def split: option.splits)

theorem addFocusBorder_box_geometry_witness:
  "nodeName (nodes (exWorld False) (element (elems (exWorld False) 0))) \<noteq> ''text'' \<and>
   map_option geometry (ownedOverlay (addFocusBorder 0 (Some 3) None (exWorld False)) 0)
     = Some ((12, 17), (36, 11)) \<and>
   map_option geometry (ownedOverlay (addFocusBorder 0 None None (exWorld False)) 0)
     = Some ((12, 17), (36, 11))"
proof -
  have a: "nodeName (nodes (exWorld False) (element (elems (exWorld False) 0))) \<noteq> ''text''"
    by (simp add: ex_defs)
  show ?thesis
    using a addFocusBorder_box_geometry [OF a, where mrg = "Some 3" and st = None]
      addFocusBorder_box_geometry [OF a, where mrg = None and st = None]
    by (simp add: ex_defs)
qed

text \<open>
  What two calls in a row do keep: the element owns one overlay, the rectangle of the
  first call has left the scene, and the scene of the second call is that of the first
  with the one rectangle exchanged for the other. The two rectangles are equal when
  \<open>getBBox()\<close> returns a new object on each call.
\<close>

lemma addFocusBorder_twice_one_overlay:
  "(let w1 = addFocusBorder e mrg st w;
        w2 = addFocusBorder e mrg st w1
    in ownedOverlay w1 e \<noteq> None \<and>
       ownedOverlay w2 e \<noteq> None \<and>
       focusBorder (elems w1 e) = Some (nextRef w) \<and>
       focusBorder (elems w2 e) = Some (nextRef w1) \<and>
       overlays w2 (nextRef w) = None \<and>
       dom (overlays w2) = insert (nextRef w1) (dom (overlays w1) - {nextRef w}) \<and>
       (\<not> bBoxCached (elems w e) \<longrightarrow> ownedOverlay w2 e = ownedOverlay w1 e))"
proof -
  define w1 where "w1 = addFocusBorder e mrg st w"
  have fb1: "focusBorder (elems w1 e) = Some (nextRef w)"
    by (simp add: w1_def addFocusBorder_elems)
  have nr: "nextRef w1 = Suc (nextRef w)"
    by (simp add: w1_def addFocusBorder_frame)
  have same: "newFocusBorder w1 (elems w1 e) mrg st = newFocusBorder w (elems w e) mrg st"
    if "\<not> bBoxCached (elems w e)"
    using that unfolding w1_def addFocusBorder_elems
    by (simp add: newFocusBorder_frame addFocusBorder_frame)
  have o1: "ownedOverlay w1 e = Some (newFocusBorder w (elems w e) mrg st)"
    by (simp add: w1_def ownedOverlay_addFocusBorder)
  have o2: "ownedOverlay (addFocusBorder e mrg st w1) e =
      Some (newFocusBorder w1 (elems w1 e) mrg st)"
    by (simp add: ownedOverlay_addFocusBorder)
  have ov2: "overlays (addFocusBorder e mrg st w1) =
      ((overlays w1)(nextRef w := None))(nextRef w1 \<mapsto> newFocusBorder w1 (elems w1 e) mrg st)"
    by (simp add: addFocusBorder_overlays removeFocusBorder_overlays fb1)
  have gone: "overlays (addFocusBorder e mrg st w1) (nextRef w) = None"
    by (simp add: ov2 nr)
  have scene: "dom (overlays (addFocusBorder e mrg st w1)) =
      insert (nextRef w1) (dom (overlays w1) - {nextRef w})"
    by (simp add: ov2)
  have fb2: "focusBorder (elems (addFocusBorder e mrg st w1) e) = Some (nextRef w1)"
    by (simp add: addFocusBorder_elems)
  show ?thesis
    using fb1 o1 o2 gone scene fb2 same by (simp add: Let_def w1_def)
qed

text \<open>
  C4. Two calls of \<open>addFocusBorder\<close> in a row with the same margin and style are to leave
  the element with one overlay that has the geometry of a single call. The source removes
  the old overlay first, as its comment says ("Allow updating by just adding new border"),
  but lines 73 and 74 add the translation of the element to the box \<open>getBBox()\<close>
  returned. On a wrapper whose \<open>getBBox()\<close> hands out the box it keeps, the next call
  starts from the shifted box: for the path with box (10, 20, 30, 5), \<open>translateX = 5\<close>
  and margin 3, the first call draws the border at (12, 17), the second at (17, 17) and
  the third at (22, 17). One overlay is in the scene after each call.
\<close>

theorem addFocusBorder_twice_drifts:
  "bBoxCached (elems exCached 0) \<and>
   map_option geometry (ownedOverlay (addFocusBorder 0 (Some 3) None exCached) 0)
     = Some ((12, 17), (36, 11)) \<and>
   map_option geometry
     (ownedOverlay (addFocusBorder 0 (Some 3) None (addFocusBorder 0 (Some 3) None exCached)) 0)
     = Some ((17, 17), (36, 11)) \<and>
   map_option geometry
     (ownedOverlay
        (addFocusBorder 0 (Some 3) None
           (addFocusBorder 0 (Some 3) None (addFocusBorder 0 (Some 3) None exCached))) 0)
     = Some ((22, 17), (36, 11)) \<and>
   dom (overlays (addFocusBorder 0 (Some 3) None (addFocusBorder 0 (Some 3) None exCached)))
     = {101}"
  by (simp add: ownedOverlay_def geometry_def model_defs exCached_def ex_defs)

text \<open>
  C5. \<open>removeFocusBorder\<close> destroys the overlay the element owns, if any, and clears the
  reference: afterwards the element owns no overlay and the rectangle has left the scene.
  On an element that owns no overlay it changes nothing, so a second call in a row is a
  no-op. The operation has no failing branch.
\<close>

theorem removeFocusBorder_clean:
  "focusBorder (elems (removeFocusBorder e w) e) = None \<and>
   (\<forall>b. focusBorder (elems w e) = Some b \<longrightarrow> overlays (removeFocusBorder e w) b = None) \<and>
   (focusBorder (elems w e) = None \<longrightarrow> removeFocusBorder e w = w) \<and>
   removeFocusBorder e (removeFocusBorder e w) = removeFocusBorder e w"
proof -
  have "focusBorder (elems (removeFocusBorder e w) e) = None"
    by (simp add: removeFocusBorder_elems)
  then show ?thesis
    by (simp add: removeFocusBorder_none removeFocusBorder_elems removeFocusBorder_overlays)
qed

theorem removeFocusBorder_clean_witness:
  "focusBorder (elems exBordered 0) = Some 40 \<and> overlays exBordered 40 \<noteq> None \<and>
   focusBorder (elems (removeFocusBorder 0 exBordered) 0) = None \<and>
   overlays (removeFocusBorder 0 exBordered) 40 = None \<and>
   focusBorder (elems (exWorld False) 0) = None \<and>
   removeFocusBorder 0 (exWorld False) = exWorld False \<and>
   removeFocusBorder 0 (removeFocusBorder 0 exBordered) = removeFocusBorder 0 exBordered"
proof -
  have a: "focusBorder (elems exBordered 0) = Some 40"
    by (simp add: exBordered_def)
  have b: "focusBorder (elems (exWorld False) 0) = None"
    by (simp add: ex_defs)
  have c: "overlays exBordered 40 \<noteq> None"
    by (simp add: exBordered_def)
  show ?thesis
    using a b c removeFocusBorder_clean [of 0 exBordered]
      removeFocusBorder_clean [of 0 "exWorld False"]
    by simp
qed

text \<open>
  C6. When the focus border is not enabled, \<open>setFocusToElement\<close> creates no overlay and
  records no focus element (chart, wrappers and scene are unchanged), and it still calls
  the native \<open>focus\<close> on the node \<open>focusElement || svgElement.element\<close> whenever that
  node is focusable; on a node that is not focusable it calls nothing.
\<close>

theorem setFocusToElement_disabled_skip:
  assumes "\<not> enabled (focusBorderOptions c)"
  shows "(case setFocusToElement c e d w of
            (c', w') \<Rightarrow>
              c' = c \<and> overlays w' = overlays w \<and> elems w' = elems w \<and> nextRef w' = nextRef w \<and>
              (let n = domCandidate w e d
               in calls w' = calls w @
                    (if focusable (nodes w n)
                     then (if hasFocusin (nodes w n) then []
                           else [AddEventListener n ''focusin'' NoOp]) @ [Focus n]
                     else [])))"
  using assms
  by (simp add: setFocusToElement_disabled setBrowserFocus_frame setBrowserFocus_calls Let_def)

theorem setFocusToElement_disabled_skip_witness:
  "\<not> enabled (focusBorderOptions (exChart False)) \<and>
   fst (setFocusToElement (exChart False) 0 None (exWorld False)) = exChart False \<and>
   overlays (snd (setFocusToElement (exChart False) 0 None (exWorld False))) = Map.empty \<and>
   calls (snd (setFocusToElement (exChart False) 0 None (exWorld False))) =
     [AddEventListener 0 ''focusin'' NoOp, Focus 0] \<and>
   calls (snd (setFocusToElement (exChart False) 1 (Some 0) exListening)) = [Focus 0]"
proof -
  have a: "\<not> enabled (focusBorderOptions (exChart False))"
    by (simp add: exChart_def exOptions_def)
  show ?thesis
    using a
      setFocusToElement_disabled_skip [OF a, where e = 0 and d = None and w = "exWorld False"]
      setFocusToElement_disabled_skip [OF a, where e = 1 and d = "Some 0" and w = exListening]
    by (simp add: split_beta domCandidate_def hasFocusin_def exListening_def ex_defs)
qed

text \<open>
  What the source does on a focusable focus target, by the test it makes: with no
  \<open>focusin\<close> entry in the registry of the node it attaches one no-op listener and then
  calls \<open>focus\<close>; with an entry it calls \<open>focus\<close> only. After the call the registry
  has the entry, so repeated calls add no duplicate. The entry is there exactly when the
  registry lists a listener, as long as no entry of the registry is an empty array.
\<close>

lemma setFocusToElement_focusin_entry:
  assumes "focusable (nodes w (domCandidate w e d))"
  shows "(let n = domCandidate w e d;
              w' = snd (setFocusToElement c e d w)
          in (\<not> hasFocusin (nodes w n) \<longrightarrow>
                focusinListeners (nodes w n) = [] \<and>
                calls w' = calls w @ [AddEventListener n ''focusin'' NoOp, Focus n] \<and>
                focusinListeners (nodes w' n) = [NoOp]) \<and>
             (hasFocusin (nodes w n) \<longrightarrow>
                calls w' = calls w @ [Focus n] \<and> hcEvents (nodes w' n) = hcEvents (nodes w n)) \<and>
             (\<forall>c2 e2 d2. domCandidate w' e2 d2 = n \<longrightarrow>
                (let w'' = snd (setFocusToElement c2 e2 d2 w')
                 in calls w'' = calls w' @ [Focus n] \<and>
                    hcEvents (nodes w'' n) = hcEvents (nodes w' n))) \<and>
             ((\<forall>m. hcEvents (nodes w n) = Some m \<longrightarrow> m ''focusin'' \<noteq> Some []) \<longrightarrow>
                hasFocusin (nodes w n) = (focusinListeners (nodes w n) \<noteq> [])))"
proof -
  define n where "n = domCandidate w e d"
  define w' where "w' = snd (setFocusToElement c e d w)"
  have f: "focusable (nodes w n)" using assms by (simp add: n_def)
  have c1: "calls w' = calls w @
      (if hasFocusin (nodes w n) then [] else [AddEventListener n ''focusin'' NoOp]) @ [Focus n]"
    using f by (simp add: w'_def setFocusToElement_calls setBrowserFocus_calls n_def)
  have h1: "hcEvents (nodes w' n) =
      (if \<not> hasFocusin (nodes w n)
       then Some ((case hcEvents (nodes w n) of None \<Rightarrow> Map.empty | Some m \<Rightarrow> m)
                   (''focusin'' \<mapsto> [NoOp]))
       else hcEvents (nodes w n))"
    using f unfolding w'_def setFocusToElement_nodes n_def [symmetric]
    by (simp add: setBrowserFocus_hcEvents)
  have has: "hasFocusin (nodes w' n)"
    unfolding hasFocusin_def h1 by (auto simp: hasFocusin_def split: option.splits)
  have f': "focusable (nodes w' n)"
    using f by (simp add: w'_def setFocusToElement_nodes setBrowserFocus_node)
  have second: "calls (snd (setFocusToElement c2 e2 d2 w')) = calls w' @ [Focus n] \<and>
      hcEvents (nodes (snd (setFocusToElement c2 e2 d2 w')) n) = hcEvents (nodes w' n)"
    if "domCandidate w' e2 d2 = n" for c2 e2 d2
    using that has f'
    by (simp add: setFocusToElement_calls setFocusToElement_nodes setBrowserFocus_calls
        setBrowserFocus_hcEvents)
  have l0: "\<not> hasFocusin (nodes w n) \<Longrightarrow> focusinListeners (nodes w n) = []"
    by (simp add: focusinListeners_def hasFocusin_def split: option.splits)
  have l1: "\<not> hasFocusin (nodes w n) \<Longrightarrow> focusinListeners (nodes w' n) = [NoOp]"
    by (simp add: focusinListeners_def h1)
  have l2: "hasFocusin (nodes w n) = (focusinListeners (nodes w n) \<noteq> [])"
    if "\<forall>m. hcEvents (nodes w n) = Some m \<longrightarrow> m ''focusin'' \<noteq> Some []"
    using that by (auto simp: hasFocusin_def focusinListeners_def split: option.splits)
  have branches: "(\<not> hasFocusin (nodes w n) \<longrightarrow>
                focusinListeners (nodes w n) = [] \<and>
                calls w' = calls w @ [AddEventListener n ''focusin'' NoOp, Focus n] \<and>
                focusinListeners (nodes w' n) = [NoOp]) \<and>
             (hasFocusin (nodes w n) \<longrightarrow>
                calls w' = calls w @ [Focus n] \<and> hcEvents (nodes w' n) = hcEvents (nodes w n))"
    using c1 h1 l0 l1 by simp
  show ?thesis
    unfolding Let_def n_def [symmetric] w'_def [symmetric]
    using branches second l2 by blast
qed

text \<open>
  C7. On a focusable focus target with no \<open>focusin\<close> listener registered,
  \<open>setFocusToElement\<close> is to attach one no-op \<open>focusin\<close> listener before it calls the
  native \<open>focus\<close>; the source says so itself ("If there is no focusin-listener, add
  one"). The source tests \<open>hcEvents && hcEvents.focusin\<close>, and an empty array is truthy:
  on a node whose registry keeps a \<open>focusin\<close> entry that lists no listener, the call
  attaches nothing and calls \<open>focus\<close> alone, and the node still has no listener.
\<close>

theorem setFocusToElement_focusin_emptied:
  "focusable (nodes exEmptied (domCandidate exEmptied 0 None)) \<and>
   focusinListeners (nodes exEmptied (domCandidate exEmptied 0 None)) = [] \<and>
   calls (snd (setFocusToElement (exChart True) 0 None exEmptied)) = [Focus 0] \<and>
   focusinListeners (nodes (snd (setFocusToElement (exChart True) 0 None exEmptied)) 0) = [] \<and>
   calls (snd (setFocusToElement (exChart True) 0 None (exWorld False))) =
     [AddEventListener 0 ''focusin'' NoOp, Focus 0]"
  by (simp add: domCandidate_def focusinListeners_def model_defs exEmptied_def exChart_def
      exOptions_def ex_defs)

text \<open>
  C8. When the renderer is in styled mode the overlay \<open>addFocusBorder\<close> creates receives
  neither a \<open>stroke\<close> nor a \<open>stroke-width\<close> attribute, whatever the style argument is;
  otherwise both are set, to \<open>style && style.stroke\<close> and \<open>style && style.strokeWidth\<close>.
\<close>

theorem addFocusBorder_stroke:
  "(case ownedOverlay (addFocusBorder this mrg st w) this of
      None \<Rightarrow> False
    | Some ov \<Rightarrow>
        if styledMode w then attrs ov ''stroke'' = None \<and> attrs ov ''stroke-width'' = None
        else attrs ov ''stroke'' = Some (case st of None \<Rightarrow> Undefined | Some s \<Rightarrow> stroke s) \<and>
             attrs ov ''stroke-width'' =
               Some (case st of None \<Rightarrow> Undefined | Some s \<Rightarrow> strokeWidth s))"
  by (simp add: ownedOverlay_addFocusBorder newFocusBorder_def Let_def rect_def addClass_def
      attr_def add_def split: prod.splits)

theorem addFocusBorder_stroke_witness:
  "map_option (\<lambda>ov. (attrs ov ''stroke'', attrs ov ''stroke-width''))
     (ownedOverlay (addFocusBorder 0 None (Some (exStyle (JNum 3))) (exWorld False)) 0)
     = Some (Some (JStr (js ''#335cad'')), Some (JNum 2)) \<and>
   map_option (\<lambda>ov. (attrs ov ''stroke'', attrs ov ''stroke-width''))
     (ownedOverlay (addFocusBorder 0 None (Some (exStyle (JNum 3)))
        ((exWorld False)\<lparr>styledMode := True\<rparr>)) 0)
     = Some (None, None)"
  using addFocusBorder_stroke [where this = 0 and mrg = None and st = "Some (exStyle (JNum 3))"
      and w = "exWorld False"]
    addFocusBorder_stroke [where this = 0 and mrg = None and st = "Some (exStyle (JNum 3))"
      and w = "(exWorld False)\<lparr>styledMode := True\<rparr>"]
  by (auto simp: exStyle_def exWorld_def split: option.splits)



text \<open>
  C10. With the focus border not enabled, \<open>setFocusToElement\<close> leaves the recorded focus
  element as it is and removes no overlay: scene and ownership are unchanged. So a border
  drawn by a call made while the border was enabled is still owned by its element after a
  later call, on another element, made while it is not enabled.
\<close>

theorem setFocusToElement_disabled_keeps_border:
  assumes "\<not> enabled off"
  shows "(case setFocusToElement (c\<lparr>focusBorderOptions := off\<rparr>) B dB w of
            (c', w') \<Rightarrow>
              focusElement c' = focusElement c \<and>
              overlays w' = overlays w \<and>
              (\<forall>e. focusBorder (elems w' e) = focusBorder (elems w e))) \<and>
         (enabled (focusBorderOptions c) \<longrightarrow>
            (case setFocusToElement c A dA w of
               (c1, w1) \<Rightarrow>
                 (case setFocusToElement (c1\<lparr>focusBorderOptions := off\<rparr>) B dB w1 of
                    (c2, w2) \<Rightarrow>
                      focusElement c2 = Some A \<and>
                      ownedOverlay w2 A \<noteq> None \<and>
                      ownedOverlay w2 A = ownedOverlay w1 A)))"
proof -
  have off: "\<not> enabled (focusBorderOptions (k\<lparr>focusBorderOptions := off\<rparr>))" for k :: chart
    using assms by simp
  have general:
    "focusElement (fst (setFocusToElement (k\<lparr>focusBorderOptions := off\<rparr>) B dB v)) =
        focusElement k \<and>
      overlays (snd (setFocusToElement (k\<lparr>focusBorderOptions := off\<rparr>) B dB v)) = overlays v \<and>
      elems (snd (setFocusToElement (k\<lparr>focusBorderOptions := off\<rparr>) B dB v)) = elems v"
    for k :: chart and v
    by (simp add: setFocusToElement_disabled [OF off] setBrowserFocus_frame)
  have first: "focusElement (fst (setFocusToElement c A dA w)) = Some A \<and>
      ownedOverlay (snd (setFocusToElement c A dA w)) A \<noteq> None"
    if "enabled (focusBorderOptions c)"
    using that by (simp add: setFocusToElement_enabled ownedOverlay_addFocusBorder)
  have owned: "ownedOverlay v' e = ownedOverlay v e"
    if "overlays v' = overlays v" and "elems v' = elems v" for v v' :: world and e
    using that by (simp add: ownedOverlay_def split: option.splits)
  have part1: "(case setFocusToElement (c\<lparr>focusBorderOptions := off\<rparr>) B dB w of
            (c', w') \<Rightarrow>
              focusElement c' = focusElement c \<and>
              overlays w' = overlays w \<and>
              (\<forall>e. focusBorder (elems w' e) = focusBorder (elems w e)))"
    using general [of c w] by (simp add: split_beta)
  have part2: "(case setFocusToElement c A dA w of
               (c1, w1) \<Rightarrow>
                 (case setFocusToElement (c1\<lparr>focusBorderOptions := off\<rparr>) B dB w1 of
                    (c2, w2) \<Rightarrow>
                      focusElement c2 = Some A \<and>
                      ownedOverlay w2 A \<noteq> None \<and>
                      ownedOverlay w2 A = ownedOverlay w1 A))"
    if en: "enabled (focusBorderOptions c)"
  proof -
    obtain c1 w1 where s1: "setFocusToElement c A dA w = (c1, w1)"
      by (cases "setFocusToElement c A dA w")
    obtain c2 w2 where
      s2: "setFocusToElement (c1\<lparr>focusBorderOptions := off\<rparr>) B dB w1 = (c2, w2)"
      by (cases "setFocusToElement (c1\<lparr>focusBorderOptions := off\<rparr>) B dB w1")
    from first [OF en] s1 have f1: "focusElement c1 = Some A" and o1: "ownedOverlay w1 A \<noteq> None"
      by simp_all
    from general [of c1 w1] s2 have g: "focusElement c2 = focusElement c1"
      "overlays w2 = overlays w1" "elems w2 = elems w1"
      by simp_all
    from owned [OF g(2) g(3)] have "ownedOverlay w2 A = ownedOverlay w1 A" .
    with f1 o1 g(1) show ?thesis by (simp add: s1 s2)
  qed
  from part1 part2 show ?thesis by blast
qed

theorem setFocusToElement_disabled_keeps_border_witness:
  "\<not> enabled (exOptions False) \<and> enabled (focusBorderOptions (exChart True)) \<and>
   focusElement (fst exFocusAThenOff) = Some 0 \<and>
   ownedOverlay (snd exFocusAThenOff) 0 \<noteq> None \<and>
   ownedOverlay (snd exFocusAThenOff) 0 = ownedOverlay (snd exFocusA) 0 \<and>
   overlays (snd exFocusAThenOff) = overlays (snd exFocusA)"
proof -
  have a: "\<not> enabled (exOptions False)" by (simp add: exOptions_def)
  have b: "enabled (focusBorderOptions (exChart True))"
    by (simp add: exChart_def exOptions_def)
  note t = setFocusToElement_disabled_keeps_border [OF a, where c = "exChart True" and A = 0
      and dA = None and B = 1 and dB = None and w = "exWorld False"]
  note u = setFocusToElement_disabled_keeps_border [OF a, where c = "fst exFocusA" and B = 1
      and dB = None and w = "snd exFocusA"]
  from t b have 1:
    "focusElement (fst exFocusAThenOff) = Some 0 \<and>
     ownedOverlay (snd exFocusAThenOff) 0 \<noteq> None \<and>
     ownedOverlay (snd exFocusAThenOff) 0 = ownedOverlay (snd exFocusA) 0"
    unfolding exFocusAThenOff_def exFocusA_def split_beta by blast
  from u have 2: "overlays (snd exFocusAThenOff) = overlays (snd exFocusA)"
    unfolding exFocusAThenOff_def split_beta by blast
  from a b 1 2 show ?thesis by blast
qed

end
